theory Spec2Isabelle
  imports Complex_Main "HOL-Library.AList"
begin

section \<open>The optimizer layer of ml-agents: \<^verbatim>\<open>mlagents/trainers/optimizer.py\<close>\<close>

text \<open>
  The module defines the abstract class \<^verbatim>\<open>Optimizer\<close> and the TensorFlow base class
  \<^verbatim>\<open>TFOptimizer\<close>. Its methods build feed dictionaries, execute the policy's session
  and post-process the fetched arrays. Python objects become records, dictionaries
  become association lists in insertion order, exceptions become the left summand of a
  sum type, and the session, which is a mutable object outside this module, is a record of
  two functions over an explicit session state that is passed through every call.
\<close>

subsection \<open>Exceptions and sequencing\<close>

datatype error =
    KeyError | IndexError | TypeError | ValueError | AttributeError
  | SessionError nat | RewardSignalError nat

text \<open>\<open>bind\<close> runs the rest of a method only when the statement before it did not raise.\<close>

definition bind :: "error + 'a \<Rightarrow> ('a \<Rightarrow> error + 'b) \<Rightarrow> error + 'b" where
  "bind m f = (case m of Inl e \<Rightarrow> Inl e | Inr x \<Rightarrow> f x)"

text \<open>A comprehension or a loop whose body may raise: the first exception ends it.\<close>

fun map_err :: "('a \<Rightarrow> error + 'b) \<Rightarrow> 'a list \<Rightarrow> error + 'b list" where
  "map_err f [] = Inr []"
| "map_err f (x # xs) = bind (f x) (\<lambda>y. bind (map_err f xs) (\<lambda>ys. Inr (y # ys)))"

subsection \<open>Arrays, dictionaries, ranges\<close>

text \<open>
  A numpy array is its shape and its elements in row-major order. No arithmetic is done
  on the elements in this module: they are copied, and the literal \<^verbatim>\<open>0.0\<close> is written.
\<close>

record ndarray =
  shape :: "nat list"
  data :: "real list"

text \<open>\<^verbatim>\<open>np.zeros((n))\<close>: a vector of \<open>n\<close> zeros; numpy raises ValueError on a negative dimension.\<close>

definition np_zeros :: "int \<Rightarrow> error + ndarray" where
  "np_zeros n =
     (if n < 0 then Inl ValueError
      else Inr \<lparr>shape = [nat n], data = replicate (nat n) 0\<rparr>)"

text \<open>
  \<^verbatim>\<open>float(v)\<close> on an array: the single element of an array of size one, TypeError
  otherwise.
\<close>

definition py_float :: "ndarray \<Rightarrow> error + real" where
  "py_float v = (case data v of [x] \<Rightarrow> Inr x | _ \<Rightarrow> Inl TypeError)"

text \<open>
  \<^verbatim>\<open>np.squeeze(v, axis=1)\<close>: the second axis is removed when its length is one; numpy
  raises (here ValueError) when the array has no second axis or its length is not one.
\<close>

definition np_squeeze_axis1 :: "ndarray \<Rightarrow> error + ndarray" where
  "np_squeeze_axis1 v =
     (case shape v of
        n # k # rest \<Rightarrow> if k = 1 then Inr (v\<lparr>shape := n # rest\<rparr>) else Inl ValueError
      | _ \<Rightarrow> Inl ValueError)"

text \<open>
  \<^verbatim>\<open>range(0, stop, step)\<close>: ValueError when the step is zero; otherwise the values
  \<open>0, step, 2 * step, \<dots>\<close>, as many as CPython's length formula for ranges gives.
\<close>

definition range_len :: "int \<Rightarrow> int \<Rightarrow> nat" where
  "range_len stop step =
     (if 0 < step \<and> 0 < stop then nat (1 + (stop - 1) div step)
      else if step < 0 \<and> stop < 0 then nat (1 + (- 1 - stop) div (- step))
      else 0)"

definition py_range0 :: "int \<Rightarrow> int \<Rightarrow> error + int list" where
  "py_range0 stop step =
     (if step = 0 then Inl ValueError
      else Inr (map (\<lambda>i. int i * step) [0 ..< range_len stop step]))"

text \<open>
  A dictionary is an association list with distinct keys, in insertion order.
  \<^verbatim>\<open>d[k] = v\<close> is \<^const>\<open>AList.update\<close>: the value is replaced in place when the key
  is present, and the entry is appended otherwise. \<^verbatim>\<open>d[k]\<close> raises KeyError on a
  missing key.
\<close>

type_synonym ('k, 'v) dict = "('k \<times> 'v) list"

definition dict_get :: "('k, 'v) dict \<Rightarrow> 'k \<Rightarrow> error + 'v" where
  "dict_get d k = (case map_of d k of None \<Rightarrow> Inl KeyError | Some v \<Rightarrow> Inr v)"

text \<open>\<^verbatim>\<open>d.update(e)\<close>: the entries of \<open>e\<close> are assigned into \<open>d\<close> in order.\<close>

definition dict_update :: "('k, 'v) dict \<Rightarrow> ('k, 'v) dict \<Rightarrow> ('k, 'v) dict" where
  "dict_update d e = fold (\<lambda>(k, v) acc. AList.update k v acc) e d"

text \<open>\<^verbatim>\<open>{k: f(v) for k, v in d.items()}\<close> with a body that may raise.\<close>

definition dict_map_err :: "('v \<Rightarrow> error + 'w) \<Rightarrow> ('k, 'v) dict \<Rightarrow> error + ('k, 'w) dict" where
  "dict_map_err f d = map_err (\<lambda>(k, v). bind (f v) (\<lambda>w. Inr (k, w))) d"

text \<open>\<^verbatim>\<open>xs[-1]\<close>: the last element, IndexError on an empty sequence.\<close>

definition py_last :: "'a list \<Rightarrow> error + 'a" where
  "py_last xs = (if xs = [] then Inl IndexError else Inr (last xs))"

text \<open>\<^verbatim>\<open>xs[i]\<close> for an index \<open>i\<close> that a \<^verbatim>\<open>range(len(...))\<close> loop produced (never negative).\<close>

definition py_nth :: "'a list \<Rightarrow> nat \<Rightarrow> error + 'a" where
  "py_nth xs i = (if i < length xs then Inr (xs ! i) else Inl IndexError)"

text \<open>\<^verbatim>\<open>"%d" % i\<close> for a natural number: its decimal digits.\<close>

fun string_of_nat :: "nat \<Rightarrow> string" where
  "string_of_nat n =
     (if n < 10 then [''0123456789'' ! n]
      else string_of_nat (n div 10) @ [''0123456789'' ! (n mod 10)])"

declare string_of_nat.simps [simp del]

text \<open>A loop whose body updates an accumulator and may raise.\<close>

fun fold_err :: "('a \<Rightarrow> 'b \<Rightarrow> error + 'b) \<Rightarrow> 'a list \<Rightarrow> 'b \<Rightarrow> error + 'b" where
  "fold_err f [] acc = Inr acc"
| "fold_err f (x # xs) acc = bind (f x acc) (fold_err f xs)"

subsection \<open>The session\<close>

text \<open>
  \<^verbatim>\<open>tf.Session\<close> belongs to TensorFlow, not to this module. A graph node is a number; an
  attribute that holds a node or \<^verbatim>\<open>None\<close> is a \<open>handle\<close>. The session is a record of two
  functions over a session state \<open>'s\<close> (the variables of the graph): the value of one
  fetched node in one execution, which may depend on everything the execution is given,
  and the state the execution leaves behind. Nothing is assumed about either function.
  \<^verbatim>\<open>sess.run(fetches, feed_dict)\<close> is one execution: it returns one value per fetched
  node, in the structure of \<open>fetches\<close>, and raises when a node cannot be evaluated.
\<close>

type_synonym tensor = nat
type_synonym handle = "tensor option"

datatype feed_val = FInt int | FArr ndarray | FList "ndarray list"

type_synonym feed_dict = "(handle, feed_val) dict"

record 's session =
  tensor_value :: "'s \<Rightarrow> handle list \<Rightarrow> feed_dict \<Rightarrow> handle \<Rightarrow> error + ndarray"
  next_state :: "'s \<Rightarrow> handle list \<Rightarrow> feed_dict \<Rightarrow> 's"

definition sess_run ::
  "'s session \<Rightarrow> 's \<Rightarrow> handle list \<Rightarrow> feed_dict \<Rightarrow> error + (ndarray list \<times> 's)" where
  "sess_run sess s fetches feed =
     bind (map_err (tensor_value sess s fetches feed) fetches)
       (\<lambda>vs. Inr (vs, next_state sess s fetches feed))"

text \<open>Fetching a dictionary of nodes returns the dictionary of their values.\<close>

definition sess_run_dict ::
  "'s session \<Rightarrow> 's \<Rightarrow> ('k, tensor) dict \<Rightarrow> feed_dict \<Rightarrow> error + (('k, ndarray) dict \<times> 's)" where
  "sess_run_dict sess s d feed =
     bind (sess_run sess s (map (\<lambda>(k, t). Some t) d) feed)
       (\<lambda>(vs, s'). Inr (zip (map fst d) vs, s'))"

text \<open>
  Fetching the list \<^verbatim>\<open>[d, a, b]\<close> of a dictionary and two nodes: TensorFlow flattens the
  structure, executes once, and returns the three results in the same structure.
\<close>

definition sess_run_dict2 ::
  "'s session \<Rightarrow> 's \<Rightarrow> ('k, tensor) dict \<Rightarrow> handle \<Rightarrow> handle \<Rightarrow> feed_dict \<Rightarrow>
     error + ((('k, ndarray) dict \<times> ndarray \<times> ndarray) \<times> 's)" where
  "sess_run_dict2 sess s d a b feed =
     bind (sess_run sess s (map (\<lambda>(k, t). Some t) d @ [a, b]) feed)
       (\<lambda>(vs, s').
          Inr ((zip (map fst d) (take (length d) vs),
                vs ! length d, vs ! Suc (length d)), s'))"

subsection \<open>The objects the optimizer works on\<close>

text \<open>
  \<^verbatim>\<open>TFPolicy\<close> (\<^verbatim>\<open>mlagents/trainers/tf_policy.py\<close>): the attributes this module reads.
  \<^verbatim>\<open>prev_action\<close> is compared with \<^verbatim>\<open>None\<close> by the module, so it is a handle, and so
  are the memory nodes, which a policy without recurrence does not have.
\<close>

record 's TFPolicy =
  sess :: "'s session"
  batch_size_ph :: tensor
  sequence_length_ph :: tensor
  vec_obs_size :: int
  vis_obs_size :: int
  vector_in :: tensor
  visual_in :: "tensor list"
  use_recurrent :: bool
  memory_in :: handle
  memory_out :: handle
  m_size :: int
  prev_action :: handle
  sequence_length :: int

text \<open>A reward signal: the two attributes the module reads.\<close>

record reward_signal =
  use_terminal_states :: bool
  update_dict :: "(string, tensor) dict"

text \<open>
  Modelled from the spec: \<^verbatim>\<open>AgentBuffer\<close> (\<^verbatim>\<open>mlagents/trainers/buffer.py\<close>) is a
  mapping from field name to a sequence of per-timestep arrays, together with a count of
  experiences.
\<close>

record AgentBuffer =
  buffer_fields :: "(string, ndarray list) dict"
  num_experiences :: int

text \<open>
  Modelled from the spec: \<^verbatim>\<open>AgentBuffer.__getitem__\<close>, indexed field access by string key.
  It is a method of an object that is passed by reference, so it returns what it read and
  the buffer after the call. The spec has the access fail on a missing field and has the
  buffer read-only to the optimizer: the buffer after the call is the buffer before it.
\<close>

definition AgentBuffer_getitem ::
  "AgentBuffer \<Rightarrow> string \<Rightarrow> error + (ndarray list \<times> AgentBuffer)" where
  "AgentBuffer_getitem batch key =
     bind (dict_get (buffer_fields batch) key) (\<lambda>field. Inr (field, batch))"

text \<open>
  \<^verbatim>\<open>SplitObservations\<close> (\<^verbatim>\<open>mlagents/trainers/trajectory.py\<close>): the vector part and the
  visual parts of an observation.
\<close>

record SplitObservations =
  vector_observations :: ndarray
  visual_observations :: "ndarray list"

text \<open>
  The two functions the module imports and calls, \<^verbatim>\<open>SplitObservations.from_observations\<close>
  and \<^verbatim>\<open>create_reward_signal\<close>, are parameters: any function, total or raising.
  \<open>'c\<close> is the type of one reward signal's configuration.
\<close>

record ('s, 'c) imported =
  from_observations :: "ndarray list \<Rightarrow> error + SplitObservations"
  create_reward_signal :: "'s TFPolicy \<Rightarrow> string \<Rightarrow> 'c \<Rightarrow> error + reward_signal"

text \<open>The attributes of a \<^verbatim>\<open>TFOptimizer\<close> instance.\<close>

record 's TFOptimizer =
  sess :: "'s session"
  policy :: "'s TFPolicy"
  update_dict :: "(string, tensor) dict"
  value_heads :: "(string, tensor) dict"
  reward_signals :: "(string, reward_signal) dict"
  memory_in :: handle
  memory_out :: handle
  m_size :: int

subsection \<open>\<^verbatim>\<open>Optimizer.__init__\<close>\<close>

text \<open>
  The abstract initialiser takes the policy and its body is \<^verbatim>\<open>pass\<close>. The argument may be
  any object; \<open>None\<close> is Python's \<^verbatim>\<open>None\<close>.
\<close>

definition Optimizer_init :: "'s TFPolicy option \<Rightarrow> error + unit" where
  "Optimizer_init policy_arg = Inr ()"

subsection \<open>\<^verbatim>\<open>TFOptimizer.create_reward_signals\<close>\<close>

definition create_reward_signals ::
  "('s, 'c) imported \<Rightarrow> 's TFOptimizer \<Rightarrow> (string, 'c) dict \<Rightarrow> error + 's TFOptimizer" where
  "create_reward_signals imp self reward_signal_configs =
     fold_err
       (\<lambda>(name, config) self.
          bind (create_reward_signal imp (policy self) name config) (\<lambda>signal.
          let self = self\<lparr>reward_signals := AList.update name signal (reward_signals self)\<rparr> in
          bind (dict_get (reward_signals self) name) (\<lambda>created.
          Inr (self\<lparr>TFOptimizer.update_dict :=
                 dict_update (TFOptimizer.update_dict self) (reward_signal.update_dict created)\<rparr>))))
       reward_signal_configs
       (self\<lparr>reward_signals := []\<rparr>)"

subsection \<open>\<^verbatim>\<open>TFOptimizer.__init__\<close>\<close>

text \<open>
  \<^verbatim>\<open>trainer_params\<close> is a \<^verbatim>\<open>Dict[str, Any]\<close>; the entry the initialiser reads holds the
  reward-signal configurations, and \<^verbatim>\<open>.items()\<close> on anything else raises.
\<close>

datatype 'c param = RewardSignalConfigs "(string, 'c) dict" | OtherParam

definition TFOptimizer_init ::
  "('s, 'c) imported \<Rightarrow> 's TFPolicy option \<Rightarrow> (string, 'c param) dict \<Rightarrow> error + 's TFOptimizer" where
  "TFOptimizer_init imp policy_arg trainer_params =
     bind (Optimizer_init policy_arg) (\<lambda>_.
     case policy_arg of
       None \<Rightarrow> Inl AttributeError
     | Some p \<Rightarrow>
         let self = \<lparr>sess = TFPolicy.sess p, policy = p, update_dict = [],
                     value_heads = [], reward_signals = [],
                     memory_in = None, memory_out = None, m_size = 0\<rparr> in
         bind (dict_get trainer_params ''reward_signals'') (\<lambda>entry.
         bind (case entry of RewardSignalConfigs c \<Rightarrow> Inr c | OtherParam \<Rightarrow> Inl AttributeError) (\<lambda>configs.
         bind (create_reward_signals imp self configs) (\<lambda>self.
         Inr (self\<lparr>TFOptimizer.memory_in := None, TFOptimizer.memory_out := None,
                   TFOptimizer.m_size := 0\<rparr>)))))"

subsection \<open>\<^verbatim>\<open>TFOptimizer.get_value_estimates\<close>\<close>

text \<open>Lines 108 to 123: the feed dictionary of one observation.\<close>

definition get_value_estimates_feed ::
  "'s TFOptimizer \<Rightarrow> SplitObservations \<Rightarrow> ndarray option \<Rightarrow> ndarray option \<Rightarrow> ndarray option \<Rightarrow>
     error + feed_dict" where
  "get_value_estimates_feed self vec_vis_obs policy_memory value_memory prev_action_arg =
     (let feed_dict =
            AList.update (Some (sequence_length_ph (policy self))) (FInt 1)
              (AList.update (Some (batch_size_ph (policy self))) (FInt 1) []) in
      bind (fold_err
              (\<lambda>i feed_dict.
                 bind (py_nth (visual_observations vec_vis_obs) i) (\<lambda>obs.
                 bind (py_nth (visual_in (policy self)) i) (\<lambda>t.
                 Inr (AList.update (Some t) (FList [obs]) feed_dict))))
              [0 ..< length (visual_observations vec_vis_obs)] feed_dict) (\<lambda>feed_dict.
      let feed_dict =
            (if vec_obs_size (policy self) > 0
             then AList.update (Some (vector_in (policy self)))
                    (FList [vector_observations vec_vis_obs]) feed_dict
             else feed_dict);
          feed_dict =
            (case policy_memory of
               None \<Rightarrow> feed_dict
             | Some m \<Rightarrow> AList.update (TFPolicy.memory_in (policy self)) (FArr m) feed_dict);
          feed_dict =
            (case value_memory of
               None \<Rightarrow> feed_dict
             | Some m \<Rightarrow> AList.update (TFOptimizer.memory_in self) (FArr m) feed_dict);
          feed_dict =
            (case prev_action_arg of
               None \<Rightarrow> feed_dict
             | Some a \<Rightarrow> AList.update (TFPolicy.prev_action (policy self)) (FList [a]) feed_dict)
      in Inr feed_dict))"

text \<open>Lines 129 to 132: the loop over the keys of the estimates when \<^verbatim>\<open>done\<close> holds.\<close>

definition zero_terminal_states ::
  "(string, reward_signal) dict \<Rightarrow> (string, real) dict \<Rightarrow> error + (string, real) dict" where
  "zero_terminal_states signals value_estimates =
     fold_err
       (\<lambda>k value_estimates.
          bind (dict_get signals k) (\<lambda>signal.
          Inr (if use_terminal_states signal then AList.update k 0 value_estimates
               else value_estimates)))
       (map fst value_estimates) value_estimates"

text \<open>
  Lines 108 to 126: the estimates as the network computes them, one execution of the
  value heads and the conversion of each fetched array to a float.
\<close>

definition computed_value_estimates ::
  "('s, 'c) imported \<Rightarrow> 's TFOptimizer \<Rightarrow> 's \<Rightarrow> ndarray list \<Rightarrow>
     ndarray option \<Rightarrow> ndarray option \<Rightarrow> ndarray option \<Rightarrow>
     error + ((string, real) dict \<times> 's)" where
  "computed_value_estimates imp self s next_obs policy_memory value_memory prev_action_arg =
     bind (from_observations imp next_obs) (\<lambda>vec_vis_obs.
     bind (get_value_estimates_feed self vec_vis_obs policy_memory value_memory prev_action_arg)
       (\<lambda>feed_dict.
     bind (sess_run_dict (TFOptimizer.sess self) s (value_heads self) feed_dict)
       (\<lambda>(value_estimates, s').
     bind (dict_map_err py_float value_estimates) (\<lambda>value_estimates.
     Inr (value_estimates, s')))))"

text \<open>The whole method: the computed estimates, then lines 128 to 134.\<close>

definition get_value_estimates ::
  "('s, 'c) imported \<Rightarrow> 's TFOptimizer \<Rightarrow> 's \<Rightarrow> ndarray list \<Rightarrow> bool \<Rightarrow>
     ndarray option \<Rightarrow> ndarray option \<Rightarrow> ndarray option \<Rightarrow>
     error + ((string, real) dict \<times> 's)" where
  "get_value_estimates imp self s next_obs done policy_memory value_memory prev_action_arg =
     bind (computed_value_estimates imp self s next_obs policy_memory value_memory prev_action_arg)
       (\<lambda>(value_estimates, s').
     bind (if done then zero_terminal_states (reward_signals self) value_estimates
           else Inr value_estimates) (\<lambda>value_estimates.
     Inr (value_estimates, s')))"

subsection \<open>\<^verbatim>\<open>TFOptimizer.get_trajectory_value_estimates\<close>\<close>

text \<open>
  The batch is passed by reference and every access to it is a method call, so the batch
  is threaded through the method, which returns it with its results: the batch as it is
  when the method returns. The session takes the fed values, not the objects that hold
  them.
\<close>

text \<open>Lines 55 to 70: the feed dictionary of the whole batch.\<close>

definition get_trajectory_value_estimates_feed ::
  "'s TFOptimizer \<Rightarrow> AgentBuffer \<Rightarrow> error + (feed_dict \<times> AgentBuffer)" where
  "get_trajectory_value_estimates_feed self batch =
     (let feed_dict =
            AList.update (Some (sequence_length_ph (policy self))) (FInt (num_experiences batch))
              (AList.update (Some (batch_size_ph (policy self))) (FInt (num_experiences batch)) []) in
      bind (if vec_obs_size (policy self) > 0
            then bind (AgentBuffer_getitem batch ''vector_obs'') (\<lambda>(field, batch).
                 Inr (AList.update (Some (vector_in (policy self))) (FList field) feed_dict, batch))
            else Inr (feed_dict, batch)) (\<lambda>(feed_dict, batch).
      bind (if vis_obs_size (policy self) > 0
            then fold_err
                   (\<lambda>i (feed_dict, batch).
                      bind (AgentBuffer_getitem batch (''visual_obs'' @ string_of_nat i))
                        (\<lambda>(obs, batch).
                      bind (py_nth (visual_in (policy self)) i) (\<lambda>t.
                      Inr (AList.update (Some t) (FList obs) feed_dict, batch))))
                   [0 ..< length (visual_in (policy self))] (feed_dict, batch)
            else Inr (feed_dict, batch)) (\<lambda>(feed_dict, batch).
      bind (if use_recurrent (policy self)
            then bind (np_zeros (TFPolicy.m_size (policy self))) (\<lambda>zeros.
                 let feed_dict =
                       AList.update (TFPolicy.memory_in (policy self)) (FList [zeros]) feed_dict in
                 bind (np_zeros (TFOptimizer.m_size self)) (\<lambda>zeros.
                 Inr (AList.update (TFOptimizer.memory_in self) (FList [zeros]) feed_dict)))
            else Inr feed_dict) (\<lambda>feed_dict.
      case TFPolicy.prev_action (policy self) of
        None \<Rightarrow> Inr (feed_dict, batch)
      | Some t \<Rightarrow>
          bind (AgentBuffer_getitem batch ''prev_action'') (\<lambda>(field, batch).
          Inr (AList.update (Some t) (FList field) feed_dict, batch))))))"

text \<open>The whole method.\<close>

definition get_trajectory_value_estimates ::
  "('s, 'c) imported \<Rightarrow> 's TFOptimizer \<Rightarrow> 's \<Rightarrow> AgentBuffer \<Rightarrow> ndarray list \<Rightarrow> bool \<Rightarrow>
     error + (((string, ndarray) dict \<times> (string, real) dict) \<times> AgentBuffer \<times> 's)" where
  "get_trajectory_value_estimates imp self s batch next_obs done =
     bind (get_trajectory_value_estimates_feed self batch) (\<lambda>(feed_dict, batch).
     bind (if use_recurrent (policy self)
           then bind (sess_run_dict2 (TFOptimizer.sess self) s (value_heads self)
                        (TFPolicy.memory_out (policy self)) (TFOptimizer.memory_out self) feed_dict)
                  (\<lambda>((value_estimates, policy_mem, value_mem), s').
                bind (AgentBuffer_getitem batch ''actions'') (\<lambda>(actions, batch).
                bind (py_last actions) (\<lambda>last_action.
                Inr (value_estimates, Some policy_mem, Some value_mem, Some last_action,
                     batch, s'))))
           else bind (sess_run_dict (TFOptimizer.sess self) s (value_heads self) feed_dict)
                  (\<lambda>(value_estimates, s').
                Inr (value_estimates, None, None, None, batch, s')))
       (\<lambda>(value_estimates, policy_mem, value_mem, prev_action_arg, batch, s').
     bind (dict_map_err np_squeeze_axis1 value_estimates) (\<lambda>value_estimates.
     bind (get_value_estimates imp self s' next_obs done policy_mem value_mem prev_action_arg)
       (\<lambda>(final_value_estimates, s'').
     Inr ((value_estimates, final_value_estimates), batch, s'')))))"

subsection \<open>\<^verbatim>\<open>TFOptimizer._execute_model\<close> and \<^verbatim>\<open>TFOptimizer._make_zero_mem\<close>\<close>

text \<open>\<^verbatim>\<open>dict(pairs)\<close>: the pairs are assigned into an empty dictionary in order.\<close>

definition dict_of_pairs :: "('k \<times> 'v) list \<Rightarrow> ('k, 'v) dict" where
  "dict_of_pairs ps = dict_update [] ps"

definition execute_model ::
  "'s TFOptimizer \<Rightarrow> 's \<Rightarrow> feed_dict \<Rightarrow> ('k, handle) dict \<Rightarrow> error + (('k, ndarray) dict \<times> 's)" where
  "execute_model self s feed_dict out_dict =
     bind (sess_run (TFOptimizer.sess self) s (map snd out_dict) feed_dict) (\<lambda>(network_out, s').
     let run_out = dict_of_pairs (zip (map fst out_dict) network_out) in
     Inr (run_out, s'))"

definition make_zero_mem :: "'s TFOptimizer \<Rightarrow> int \<Rightarrow> int \<Rightarrow> error + ndarray list" where
  "make_zero_mem self m_size_arg length_arg =
     bind (py_range0 length_arg (sequence_length (policy self))) (\<lambda>r.
     map_err (\<lambda>i. np_zeros m_size_arg) r)"

subsection \<open>A small optimizer to run the methods on\<close>

text \<open>
  A session over a counter as its state. Every node evaluates to an array of shape
  \<open>(1, 1)\<close>; its element is the node number plus the state, plus 100 when node 7 is fed.
  An execution leaves the state alone. Fetching \<^verbatim>\<open>None\<close> raises.
\<close>

definition ex_session :: "nat session" where
  "ex_session =
     \<lparr>tensor_value = (\<lambda>s fetches feed t.
          case t of
            None \<Rightarrow> Inl TypeError
          | Some n \<Rightarrow>
              Inr \<lparr>shape = [1, 1],
                   data = [real (n + s) + (if map_of feed (Some 7) = None then 0 else 100)]\<rparr>),
      next_state = (\<lambda>s fetches feed. s)\<rparr>"

text \<open>A policy with vector observations only, without recurrence and previous action.\<close>

definition ex_policy :: "nat TFPolicy" where
  "ex_policy =
     \<lparr>TFPolicy.sess = ex_session, batch_size_ph = 0, sequence_length_ph = 1,
      vec_obs_size = 2, vis_obs_size = 0, vector_in = 2, visual_in = [],
      use_recurrent = False, TFPolicy.memory_in = None, TFPolicy.memory_out = None,
      TFPolicy.m_size = 0, prev_action = None, sequence_length = 8\<rparr>"

text \<open>The same policy conditioning on the previous action (node 7), still not recurrent.\<close>

definition ex_policy_prev :: "nat TFPolicy" where
  "ex_policy_prev = ex_policy\<lparr>TFPolicy.prev_action := Some 7\<rparr>"

text \<open>A recurrent policy with memory nodes 3 and 5 that conditions on the previous action.\<close>

definition ex_policy_rnn :: "nat TFPolicy" where
  "ex_policy_rnn =
     ex_policy\<lparr>use_recurrent := True, TFPolicy.memory_in := Some 3,
               TFPolicy.memory_out := Some 5, TFPolicy.m_size := 4,
               TFPolicy.prev_action := Some 7\<rparr>"

definition ex_signals :: "(string, reward_signal) dict" where
  "ex_signals =
     [(''extrinsic'', \<lparr>use_terminal_states = True, update_dict = [(''Losses/extrinsic'', 20)]\<rparr>),
      (''curiosity'', \<lparr>use_terminal_states = False, update_dict = [(''Losses/curiosity'', 21)]\<rparr>)]"

text \<open>Two reward signals, a value head for each.\<close>

definition ex_optimizer :: "nat TFOptimizer" where
  "ex_optimizer =
     \<lparr>sess = ex_session, policy = ex_policy,
      update_dict = [(''Losses/extrinsic'', 20), (''Losses/curiosity'', 21)],
      value_heads = [(''extrinsic'', 10), (''curiosity'', 11)],
      reward_signals = ex_signals,
      memory_in = None, memory_out = None, m_size = 0\<rparr>"

definition ex_optimizer_prev :: "nat TFOptimizer" where
  "ex_optimizer_prev = ex_optimizer\<lparr>policy := ex_policy_prev\<rparr>"

definition ex_optimizer_rnn :: "nat TFOptimizer" where
  "ex_optimizer_rnn =
     ex_optimizer\<lparr>policy := ex_policy_rnn, TFOptimizer.memory_in := Some 4,
                  TFOptimizer.memory_out := Some 6, TFOptimizer.m_size := 4\<rparr>"

text \<open>
  The imported functions: the first observation is the vector observation and there are no
  visual ones; a reward signal's configuration is its \<^verbatim>\<open>use_terminal_states\<close> flag, and
  its update dictionary has one entry named after the signal.
\<close>

definition ex_imported :: "(nat, bool) imported" where
  "ex_imported =
     \<lparr>from_observations = (\<lambda>obs.
          Inr \<lparr>vector_observations = (case obs of [] \<Rightarrow> \<lparr>shape = [0], data = []\<rparr> | x # _ \<Rightarrow> x),
               visual_observations = []\<rparr>),
      create_reward_signal = (\<lambda>p name flag.
          Inr \<lparr>use_terminal_states = flag,
               update_dict = [(''Losses/'' @ name, length name)]\<rparr>)\<rparr>"

definition ex_obs :: ndarray where
  "ex_obs = \<lparr>shape = [2], data = [1, 2]\<rparr>"

definition ex_action :: ndarray where
  "ex_action = \<lparr>shape = [1], data = [3]\<rparr>"

text \<open>A batch of one experience.\<close>

definition ex_batch :: AgentBuffer where
  "ex_batch =
     \<lparr>buffer_fields = [(''vector_obs'', [ex_obs]), (''prev_action'', [ex_action]),
                       (''actions'', [ex_action])],
      num_experiences = 1\<rparr>"

text \<open>
  The optimizer as \<^const>\<open>TFOptimizer_init\<close> leaves it for one reward signal: the
  signal is registered and there is no value head yet.
\<close>

definition ex_optimizer_fresh :: "nat TFOptimizer" where
  "ex_optimizer_fresh =
     \<lparr>sess = ex_session, policy = ex_policy,
      update_dict = [(''Losses/extrinsic'', 9)],
      value_heads = [],
      reward_signals =
        [(''extrinsic'', \<lparr>use_terminal_states = True, update_dict = [(''Losses/extrinsic'', 9)]\<rparr>)],
      memory_in = None, memory_out = None, m_size = 0\<rparr>"

section \<open>Properties\<close>

subsection \<open>Sequencing, comprehensions and session runs\<close>

lemma bind_Inr [simp]: "bind (Inr x) f = f x" by (simp add: bind_def)
lemma bind_Inl [simp]: "bind (Inl e) f = Inl e" by (simp add: bind_def)
lemma bind_eq_Inr: "bind m f = Inr y \<longleftrightarrow> (\<exists>x. m = Inr x \<and> f x = Inr y)"
  by (cases m) simp_all

lemma map_err_const: "map_err (\<lambda>i. Inr c) xs = Inr (replicate (length xs) c)"
  by (induction xs) simp_all

lemma map_err_eq_Inr:
  "map_err f xs = Inr ys \<longleftrightarrow> list_all2 (\<lambda>x y. f x = Inr y) xs ys"
  by (induction xs arbitrary: ys) (auto simp: bind_eq_Inr list_all2_Cons1)

lemma map_err_length: "map_err f xs = Inr ys \<Longrightarrow> length ys = length xs"
  by (simp add: map_err_eq_Inr list_all2_lengthD)

lemma dict_map_err_all2:
  "dict_map_err f d = Inr d' \<Longrightarrow> list_all2 (\<lambda>(k, v) (k', w). k' = k \<and> f v = Inr w) d d'"
  unfolding dict_map_err_def map_err_eq_Inr
  by (erule list_all2_mono) (auto simp: bind_eq_Inr)

lemma all2_keys:
  "list_all2 (\<lambda>(k, v) (k', w). k' = k \<and> P v w) d d' \<Longrightarrow> map fst d' = map fst d"
  by (induction d d' rule: list_all2_induct) auto

lemma all2_lookup:
  "list_all2 (\<lambda>(k, v) (k', w). k' = k \<and> P v w) d d' \<Longrightarrow> map_of d k = Some v \<Longrightarrow>
     \<exists>w. map_of d' k = Some w \<and> P v w"
  by (induction d d' rule: list_all2_induct) (auto split: if_splits)

lemma dict_map_err_keys: "dict_map_err f d = Inr d' \<Longrightarrow> map fst d' = map fst d"
  by (drule dict_map_err_all2) (rule all2_keys)

lemma sess_run_Inr:
  "sess_run ss s fetches feed = Inr (vs, s') \<longleftrightarrow>
     list_all2 (\<lambda>t v. tensor_value ss s fetches feed t = Inr v) fetches vs \<and>
     s' = next_state ss s fetches feed"
  by (auto simp: sess_run_def bind_eq_Inr map_err_eq_Inr)

lemma sess_run_dict_keys:
  "sess_run_dict ss s d feed = Inr (ve, s') \<Longrightarrow> map fst ve = map fst d"
  by (auto simp: sess_run_dict_def bind_eq_Inr sess_run_Inr dest!: list_all2_lengthD)

lemma sess_run_dict2_keys:
  "sess_run_dict2 ss s d a b feed = Inr ((ve, pm, vm), s') \<Longrightarrow> map fst ve = map fst d"
  by (auto simp: sess_run_dict2_def bind_eq_Inr sess_run_Inr dest!: list_all2_lengthD)

lemma dict_get_eq_Inr: "dict_get d k = Inr v \<longleftrightarrow> map_of d k = Some v"
  by (simp add: dict_get_def split: option.splits)

lemma update_present_keys: "k \<in> fst ` set al \<Longrightarrow> map fst (AList.update k v al) = map fst al"
  by (simp add: update_keys)

text \<open>The definitions a concrete run unfolds.\<close>

lemmas run_defs =
  computed_value_estimates_def get_value_estimates_def get_value_estimates_feed_def
  zero_terminal_states_def sess_run_dict_def sess_run_dict2_def sess_run_def
  dict_map_err_def dict_get_def py_float_def np_squeeze_axis1_def np_zeros_def
  py_last_def py_nth_def AgentBuffer_getitem_def
  get_trajectory_value_estimates_def get_trajectory_value_estimates_feed_def

lemmas ex_defs =
  ex_session_def ex_policy_def ex_policy_prev_def ex_policy_rnn_def ex_signals_def
  ex_optimizer_def ex_optimizer_prev_def ex_optimizer_rnn_def ex_imported_def
  ex_obs_def ex_action_def ex_batch_def ex_optimizer_fresh_def

subsection \<open>The zero-memory helper\<close>

text \<open>Rounding up by integer division, as CPython computes the length of a range.\<close>

lemma div_round_up:
  fixes a b :: int
  assumes "0 < b"
  shows "1 + (a - 1) div b = - ((- a) div b)"
proof -
  define q where "q = (a - 1) div b"
  define r where "r = (a - 1) mod b"
  have r: "0 \<le> r" "r < b" using assms by (simp_all add: r_def)
  have "a - 1 = b * q + r" by (simp add: q_def r_def)
  then have "- a = b * (- (q + 1)) + (b - 1 - r)" by (simp add: algebra_simps)
  moreover have "0 \<le> b - 1 - r" "b - 1 - r < b" using r by simp_all
  ultimately have "(- a) div b = - (q + 1)" by (rule int_div_pos_eq)
  then show ?thesis by (simp add: q_def)
qed

lemma range_len_ceiling:
  assumes "step \<noteq> 0"
  shows "range_len stop step = nat \<lceil>real_of_int stop / real_of_int step\<rceil>"
proof (cases "0 < step")
  case True
  have c: "\<lceil>real_of_int stop / real_of_int step\<rceil> = 1 + (stop - 1) div step"
    using div_round_up [OF True, of stop] by (simp add: ceiling_divide_eq_div)
  show ?thesis
  proof (cases "0 < stop")
    case True
    with \<open>0 < step\<close> c show ?thesis by (simp add: range_len_def)
  next
    case False
    then have "(stop - 1) div step < 0" using \<open>0 < step\<close>
      by (simp add: div_neg_pos_less0)
    with False \<open>0 < step\<close> c show ?thesis by (simp add: range_len_def)
  qed
next
  case False
  with assms have neg: "0 < - step" by simp
  have "real_of_int stop / real_of_int step = real_of_int (- stop) / real_of_int (- step)"
    by simp
  then have c: "\<lceil>real_of_int stop / real_of_int step\<rceil> = 1 + (- stop - 1) div (- step)"
    using div_round_up [OF neg, of "- stop"] by (simp only: ceiling_divide_eq_div)
  show ?thesis
  proof (cases "stop < 0")
    case True
    have e: "- 1 - stop = - stop - 1" by simp
    have "range_len stop step = nat (1 + (- 1 - stop) div (- step))"
      using True neg by (simp add: range_len_def)
    then show ?thesis by (simp only: e c)
  next
    case False
    then have "(- stop - 1) div (- step) < 0" using neg
      by (simp add: div_neg_pos_less0)
    with False neg c show ?thesis by (simp add: range_len_def)
  qed
qed

text \<open>
  C5. \<^verbatim>\<open>_make_zero_mem(m_size, length)\<close> returns a list of zero-filled vectors of size
  \<open>m_size\<close>, one for each start of a sequence in a span of \<open>length\<close> timesteps with the
  policy's sequence length as stride: \<open>\<lceil>length / sequence_length\<rceil>\<close> vectors (none when
  that is not positive). \<open>m_size\<close> is a size, so it is not negative, and the stride of a
  range is not zero; Python raises ValueError on both.
\<close>

theorem make_zero_mem_zero_vectors:
  assumes "0 \<le> m" and "sequence_length (policy self) \<noteq> 0"
  shows "make_zero_mem self m len =
           Inr (replicate (nat \<lceil>real_of_int len / real_of_int (sequence_length (policy self))\<rceil>)
                  \<lparr>shape = [nat m], data = replicate (nat m) 0\<rparr>)"
  using assms
  by (simp add: make_zero_mem_def py_range0_def np_zeros_def map_err_const range_len_ceiling)

text \<open>With \<open>m_size = 8\<close>, \<open>length = 24\<close> and a sequence length of 8: three vectors of size 8.\<close>

theorem make_zero_mem_zero_vectors_witness:
  "(0::int) \<le> 8 \<and> sequence_length (policy ex_optimizer) \<noteq> 0 \<and>
   make_zero_mem ex_optimizer 8 24 =
     Inr [\<lparr>shape = [8], data = replicate 8 0\<rparr>, \<lparr>shape = [8], data = replicate 8 0\<rparr>,
          \<lparr>shape = [8], data = replicate 8 0\<rparr>]"
proof -
  have m: "(0::int) \<le> 8" by simp
  have st: "sequence_length (policy ex_optimizer) \<noteq> 0" by (simp add: ex_defs)
  have n: "nat \<lceil>real_of_int 24 / real_of_int (sequence_length (policy ex_optimizer))\<rceil> = Suc (Suc (Suc 0))"
    by (simp add: ex_defs)
  show ?thesis
    using make_zero_mem_zero_vectors [OF m st, of 24] m st by (simp only: n) simp
qed

subsection \<open>Bootstrap value estimates\<close>

text \<open>
  The loop of lines 129 to 132, for any list of keys that are keys of the estimates: the
  keys stay as they are, every key met is a registered reward signal (the lookup raises
  otherwise), and an estimate is 0.0 when its signal uses terminal states and untouched
  when not.
\<close>

lemma zero_loop:
  assumes "fold_err
             (\<lambda>k ve. bind (dict_get signals k) (\<lambda>signal.
                Inr (if use_terminal_states signal then AList.update k 0 ve else ve)))
             ks acc = Inr acc'"
    and "set ks \<subseteq> fst ` set acc"
  shows "map fst acc' = map fst acc \<and>
         (\<forall>k\<in>set ks. map_of signals k \<noteq> None) \<and>
         (\<forall>k. map_of acc' k =
            (if k \<in> set ks \<and> (\<exists>sig. map_of signals k = Some sig \<and> use_terminal_states sig)
             then Some 0 else map_of acc k))"
  using assms
proof (induction ks arbitrary: acc)
  case Nil
  then show ?case by simp
next
  case (Cons x ks)
  from Cons.prems(1) obtain sig where sig: "map_of signals x = Some sig"
    and rest: "fold_err
             (\<lambda>k ve. bind (dict_get signals k) (\<lambda>signal.
                Inr (if use_terminal_states signal then AList.update k 0 ve else ve)))
             ks (if use_terminal_states sig then AList.update x 0 acc else acc) = Inr acc'"
    by (auto simp: bind_eq_Inr dict_get_eq_Inr)
  let ?acc1 = "if use_terminal_states sig then AList.update x 0 acc else acc"
  have x: "x \<in> fst ` set acc" using Cons.prems(2) by simp
  have keys1: "map fst ?acc1 = map fst acc" using x by (simp add: update_present_keys)
  then have "fst ` set ?acc1 = fst ` set acc" by (metis list.set_map)
  with Cons.prems(2) have sub: "set ks \<subseteq> fst ` set ?acc1" by simp
  note IH = Cons.IH [OF rest sub]
  have look1: "map_of ?acc1 k = (if k = x \<and> use_terminal_states sig then Some 0 else map_of acc k)" for k
    by (simp add: update_conv')
  show ?case
  proof (intro conjI ballI allI)
    show "map fst acc' = map fst acc" using IH keys1 by simp
  next
    fix k assume "k \<in> set (x # ks)"
    then show "map_of signals k \<noteq> None" using IH sig by auto
  next
    fix k
    show "map_of acc' k =
            (if k \<in> set (x # ks) \<and> (\<exists>sig. map_of signals k = Some sig \<and> use_terminal_states sig)
             then Some 0 else map_of acc k)"
      using IH look1 [of k] sig by auto
  qed
qed

lemma zero_terminal_states_Inr:
  assumes "zero_terminal_states signals ve = Inr ve'"
  shows "map fst ve' = map fst ve"
    and "k \<in> fst ` set ve \<Longrightarrow> \<exists>sig. map_of signals k = Some sig \<and>
           map_of ve' k = (if use_terminal_states sig then Some 0 else map_of ve k)"
proof -
  have sub: "set (map fst ve) \<subseteq> fst ` set ve" by simp
  note z = zero_loop [OF assms [unfolded zero_terminal_states_def] sub]
  show "map fst ve' = map fst ve" using z by simp
  assume k: "k \<in> fst ` set ve"
  then have "map_of signals k \<noteq> None" using z by auto
  then obtain sig where sig: "map_of signals k = Some sig" by auto
  have "map_of ve' k = (if use_terminal_states sig then Some 0 else map_of ve k)"
    using z k sig by simp
  with sig show "\<exists>sig. map_of signals k = Some sig \<and>
           map_of ve' k = (if use_terminal_states sig then Some 0 else map_of ve k)" by blast
qed

lemma computed_value_estimates_keys:
  "computed_value_estimates imp self s obs pm vm pa = Inr (ve, s') \<Longrightarrow>
     map fst ve = map fst (value_heads self)"
  by (auto simp: computed_value_estimates_def bind_eq_Inr
           dest!: sess_run_dict_keys dict_map_err_keys)

lemma get_value_estimates_keys:
  "get_value_estimates imp self s obs d pm vm pa = Inr (ve, s') \<Longrightarrow>
     map fst ve = map fst (value_heads self)"
  by (auto simp: get_value_estimates_def bind_eq_Inr split: if_splits
           dest!: computed_value_estimates_keys zero_terminal_states_Inr(1))

text \<open>
  C1, as the code has it. When \<^verbatim>\<open>get_value_estimates\<close> is called with \<^verbatim>\<open>done=True\<close> and
  returns, every registered reward signal whose \<^verbatim>\<open>use_terminal_states\<close> flag is true and
  that has a value head has exactly 0.0 as its estimate, whatever the observation, the
  memories and the previous action are; such a signal without a value head has no entry in
  the mapping returned.
\<close>

theorem get_value_estimates_terminal_zero:
  assumes "get_value_estimates imp self s next_obs True policy_memory value_memory pa = Inr (ve, s')"
    and "map_of (reward_signals self) k = Some signal"
    and "use_terminal_states signal"
  shows "map_of ve k = (if k \<in> fst ` set (value_heads self) then Some 0 else None)"
proof -
  from assms(1) obtain ve0 where c: "computed_value_estimates imp self s next_obs policy_memory value_memory pa = Inr (ve0, s')"
    and z: "zero_terminal_states (reward_signals self) ve0 = Inr ve"
    by (auto simp: get_value_estimates_def bind_eq_Inr)
  have "map fst ve0 = map fst (value_heads self)" using c by (rule computed_value_estimates_keys)
  then have heads0: "fst ` set ve0 = fst ` set (value_heads self)" by (metis list.set_map)
  show ?thesis
  proof (cases "k \<in> fst ` set (value_heads self)")
    case True
    with heads0 have "k \<in> fst ` set ve0" by simp
    from zero_terminal_states_Inr(2) [OF z this] assms(2,3) True show ?thesis by simp
  next
    case False
    have "map fst ve = map fst ve0" using z by (rule zero_terminal_states_Inr(1))
    then have "fst ` set ve = fst ` set ve0" by (metis list.set_map)
    with heads0 False have "k \<notin> fst ` set ve" by simp
    then have "map_of ve k = None" by (simp add: map_of_eq_None_iff)
    with False show ?thesis by simp
  qed
qed

theorem get_value_estimates_terminal_zero_witness:
  "get_value_estimates ex_imported ex_optimizer 0 [ex_obs] True None None None =
     Inr ([(''extrinsic'', 0), (''curiosity'', 11)], 0) \<and>
   map_of (reward_signals ex_optimizer) ''extrinsic'' =
     Some \<lparr>use_terminal_states = True, update_dict = [(''Losses/extrinsic'', 20)]\<rparr> \<and>
   use_terminal_states \<lparr>use_terminal_states = True, update_dict = [(''Losses/extrinsic'', 20)]\<rparr> \<and>
   ''extrinsic'' \<in> fst ` set (value_heads ex_optimizer) \<and>
   map_of [(''extrinsic'', 0::real), (''curiosity'', 11)] ''extrinsic'' = Some 0"
proof -
  have run: "get_value_estimates ex_imported ex_optimizer 0 [ex_obs] True None None None =
     Inr ([(''extrinsic'', 0), (''curiosity'', 11)], 0)"
    by (simp add: run_defs ex_defs)
  have reg: "map_of (reward_signals ex_optimizer) ''extrinsic'' =
     Some \<lparr>use_terminal_states = True, update_dict = [(''Losses/extrinsic'', 20)]\<rparr>"
    by (simp add: ex_defs)
  have flag: "use_terminal_states \<lparr>use_terminal_states = True, update_dict = [(''Losses/extrinsic'', 20)]\<rparr>"
    by simp
  have head: "''extrinsic'' \<in> fst ` set (value_heads ex_optimizer)"
    by (simp add: ex_defs)
  from get_value_estimates_terminal_zero [OF run reg flag] run reg flag head
  show ?thesis by simp
qed

text \<open>
  C1, as the claim states it, fails on the optimizer that \<^verbatim>\<open>TFOptimizer.__init__\<close> leaves
  behind for one reward signal: \<^verbatim>\<open>extrinsic\<close> is registered with its flag set, there is no
  value head yet, and the mapping returned with \<^verbatim>\<open>done=True\<close> is empty, so it has no 0.0
  for \<^verbatim>\<open>extrinsic\<close>.
\<close>

theorem get_value_estimates_terminal_zero_counterexample:
  "TFOptimizer_init ex_imported (Some ex_policy)
     [(''reward_signals'', RewardSignalConfigs [(''extrinsic'', True)])] = Inr ex_optimizer_fresh \<and>
   map_of (reward_signals ex_optimizer_fresh) ''extrinsic'' =
     Some \<lparr>use_terminal_states = True, update_dict = [(''Losses/extrinsic'', 9)]\<rparr> \<and>
   get_value_estimates ex_imported ex_optimizer_fresh 0 [ex_obs] True None None None = Inr ([], 0) \<and>
   map_of ([] :: (string \<times> real) list) ''extrinsic'' \<noteq> Some 0"
proof -
  have "TFPolicy.sess ex_policy = ex_session" by (simp add: ex_policy_def)
  then have "TFOptimizer_init ex_imported (Some ex_policy)
     [(''reward_signals'', RewardSignalConfigs [(''extrinsic'', True)])] = Inr ex_optimizer_fresh"
    by (simp add: TFOptimizer_init_def Optimizer_init_def create_reward_signals_def dict_get_def
          dict_update_def ex_optimizer_fresh_def ex_imported_def)
  moreover have "map_of (reward_signals ex_optimizer_fresh) ''extrinsic'' =
     Some \<lparr>use_terminal_states = True, update_dict = [(''Losses/extrinsic'', 9)]\<rparr>"
    by (simp add: ex_optimizer_fresh_def)
  moreover have "get_value_estimates ex_imported ex_optimizer_fresh 0 [ex_obs] True None None None =
     Inr ([], 0)"
    by (simp add: run_defs ex_defs)
  ultimately show ?thesis by simp
qed

text \<open>
  C2. When \<^verbatim>\<open>get_value_estimates\<close> is called with \<^verbatim>\<open>done=True\<close> and returns, the estimate
  of every registered reward signal whose \<^verbatim>\<open>use_terminal_states\<close> flag is false is the
  estimate the network computed (\<^const>\<open>computed_value_estimates\<close>: the fetched value of
  its value head, converted to a float), unchanged.
\<close>

theorem get_value_estimates_nonterminal_unchanged:
  assumes "get_value_estimates imp self s next_obs True policy_memory value_memory pa = Inr (ve, s')"
    and "map_of (reward_signals self) k = Some signal"
    and "\<not> use_terminal_states signal"
  shows "\<exists>ve0. computed_value_estimates imp self s next_obs policy_memory value_memory pa = Inr (ve0, s')
           \<and> map_of ve k = map_of ve0 k"
proof -
  from assms(1) obtain ve0 where c: "computed_value_estimates imp self s next_obs policy_memory value_memory pa = Inr (ve0, s')"
    and z: "zero_terminal_states (reward_signals self) ve0 = Inr ve"
    by (auto simp: get_value_estimates_def bind_eq_Inr)
  have "map_of ve k = map_of ve0 k"
  proof (cases "k \<in> fst ` set ve0")
    case True
    from zero_terminal_states_Inr(2) [OF z True] assms(2,3) show ?thesis by simp
  next
    case False
    moreover have "map fst ve = map fst ve0" using z by (rule zero_terminal_states_Inr(1))
    then have "fst ` set ve = fst ` set ve0" by (metis list.set_map)
    ultimately have "map_of ve k = None" "map_of ve0 k = None"
      by (simp_all add: map_of_eq_None_iff)
    then show ?thesis by simp
  qed
  with c show ?thesis by blast
qed

theorem get_value_estimates_nonterminal_unchanged_witness:
  "get_value_estimates ex_imported ex_optimizer 0 [ex_obs] True None None None =
     Inr ([(''extrinsic'', 0), (''curiosity'', 11)], 0) \<and>
   map_of (reward_signals ex_optimizer) ''curiosity'' =
     Some \<lparr>use_terminal_states = False, update_dict = [(''Losses/curiosity'', 21)]\<rparr> \<and>
   \<not> use_terminal_states \<lparr>use_terminal_states = False, update_dict = [(''Losses/curiosity'', 21)]\<rparr> \<and>
   (\<exists>ve0. computed_value_estimates ex_imported ex_optimizer 0 [ex_obs] None None None = Inr (ve0, 0) \<and>
      map_of [(''extrinsic'', 0::real), (''curiosity'', 11)] ''curiosity'' = map_of ve0 ''curiosity'')"
proof -
  have run: "get_value_estimates ex_imported ex_optimizer 0 [ex_obs] True None None None =
     Inr ([(''extrinsic'', 0), (''curiosity'', 11)], 0)"
    by (simp add: run_defs ex_defs)
  have reg: "map_of (reward_signals ex_optimizer) ''curiosity'' =
     Some \<lparr>use_terminal_states = False, update_dict = [(''Losses/curiosity'', 21)]\<rparr>"
    by (simp add: ex_defs)
  have flag: "\<not> use_terminal_states \<lparr>use_terminal_states = False, update_dict = [(''Losses/curiosity'', 21)]\<rparr>"
    by simp
  from get_value_estimates_nonterminal_unchanged [OF run reg flag] run reg flag
  show ?thesis by blast
qed

text \<open>
  What the network computed for a value head: the value the session gave its node in the
  one execution of the value heads, on the feed dictionary of lines 108 to 123, as a float.
\<close>

lemma all2_zip_keys_gen:
  "list_all2 P (map f d) vs \<Longrightarrow>
     list_all2 (\<lambda>(k, t) (k', v). k' = k \<and> P (f (k, t)) v) d (zip (map fst d) vs)"
proof (induction d arbitrary: vs)
  case Nil
  then show ?case by simp
next
  case (Cons p d)
  then show ?case by (cases vs) (auto split: prod.splits)
qed

lemma sess_run_dict_all2:
  assumes "sess_run_dict ss s d feed = Inr (ve, s')"
  shows "list_all2 (\<lambda>(k, t) (k', v). k' = k \<and>
            tensor_value ss s (map (\<lambda>(k, t). Some t) d) feed (Some t) = Inr v) d ve"
proof -
  from assms obtain vs where
    run: "list_all2 (\<lambda>t v. tensor_value ss s (map (\<lambda>(k, t). Some t) d) feed t = Inr v)
            (map (\<lambda>(k, t). Some t) d) vs"
    and ve: "ve = zip (map fst d) vs"
    by (auto simp: sess_run_dict_def bind_eq_Inr sess_run_Inr)
  from all2_zip_keys_gen [OF run] show ?thesis by (simp add: ve)
qed

lemma computed_value_estimates_entry:
  assumes "computed_value_estimates imp self s obs pm vm pa = Inr (ve, s')"
    and "map_of (value_heads self) k = Some t"
  shows "\<exists>split feed v x.
           from_observations imp obs = Inr split \<and>
           get_value_estimates_feed self split pm vm pa = Inr feed \<and>
           tensor_value (TFOptimizer.sess self) s (map (\<lambda>(k, t). Some t) (value_heads self)) feed (Some t)
             = Inr v \<and>
           py_float v = Inr x \<and> map_of ve k = Some x"
proof -
  from assms(1) obtain split feed fetched where
    sp: "from_observations imp obs = Inr split"
    and fd: "get_value_estimates_feed self split pm vm pa = Inr feed"
    and run: "sess_run_dict (TFOptimizer.sess self) s (value_heads self) feed = Inr (fetched, s')"
    and fl: "dict_map_err py_float fetched = Inr ve"
    by (auto simp: computed_value_estimates_def bind_eq_Inr)
  from all2_lookup [OF sess_run_dict_all2 [OF run] assms(2)] obtain v where
    v: "map_of fetched k = Some v"
    and tv: "tensor_value (TFOptimizer.sess self) s (map (\<lambda>(k, t). Some t) (value_heads self)) feed (Some t) = Inr v"
    by blast
  from all2_lookup [OF dict_map_err_all2 [OF fl] v] obtain x where
    "map_of ve k = Some x" "py_float v = Inr x" by blast
  with sp fd tv show ?thesis by blast
qed

subsection \<open>Trajectory value estimates\<close>

text \<open>
  Reading a field leaves the batch as it is, and so does building the feed dictionary,
  also through the loop over the visual observations.
\<close>

lemma AgentBuffer_getitem_Inr:
  "AgentBuffer_getitem batch key = Inr (field, b') \<longleftrightarrow>
     dict_get (buffer_fields batch) key = Inr field \<and> b' = batch"
  by (auto simp: AgentBuffer_getitem_def bind_eq_Inr)

lemma visual_loop_batch:
  "fold_err
     (\<lambda>i (feed_dict, batch).
        bind (AgentBuffer_getitem batch (name i)) (\<lambda>(obs, batch).
        bind (py_nth ts i) (\<lambda>t.
        Inr (AList.update (Some t) (FList obs) feed_dict, batch))))
     is (feed, batch) = Inr (feed', b') \<Longrightarrow> b' = batch"
proof (induction "is" arbitrary: feed)
  case Nil
  then show ?case by simp
next
  case (Cons i "is")
  then show ?case
    by (auto simp: bind_eq_Inr AgentBuffer_getitem_Inr)
qed

lemma get_trajectory_value_estimates_feed_batch:
  assumes "get_trajectory_value_estimates_feed self batch = Inr (feed, b')"
  shows "b' = batch"
  using assms
  by (auto simp: get_trajectory_value_estimates_feed_def bind_eq_Inr Let_def
             AgentBuffer_getitem_Inr
           split: if_splits option.splits dest!: visual_loop_batch)

text \<open>What a returning call of \<^verbatim>\<open>get_trajectory_value_estimates\<close> went through.\<close>

lemma get_trajectory_value_estimates_Inr:
  assumes "get_trajectory_value_estimates imp self s batch next_obs done = Inr ((tve, bve), b', s'')"
  shows "b' = batch \<and>
         (\<exists>feed.
            get_trajectory_value_estimates_feed self batch = Inr (feed, batch) \<and>
            (if use_recurrent (policy self)
             then \<exists>tve0 policy_mem value_mem s1 actions.
                    sess_run_dict2 (TFOptimizer.sess self) s (value_heads self)
                      (TFPolicy.memory_out (policy self)) (TFOptimizer.memory_out self) feed
                      = Inr ((tve0, policy_mem, value_mem), s1) \<and>
                    AgentBuffer_getitem batch ''actions'' = Inr (actions, batch) \<and>
                    actions \<noteq> [] \<and>
                    dict_map_err np_squeeze_axis1 tve0 = Inr tve \<and>
                    get_value_estimates imp self s1 next_obs done
                      (Some policy_mem) (Some value_mem) (Some (last actions)) = Inr (bve, s'')
             else \<exists>tve0 s1.
                    sess_run_dict (TFOptimizer.sess self) s (value_heads self) feed = Inr (tve0, s1) \<and>
                    dict_map_err np_squeeze_axis1 tve0 = Inr tve \<and>
                    get_value_estimates imp self s1 next_obs done None None None = Inr (bve, s'')))"
  using assms
  apply (clarsimp simp: get_trajectory_value_estimates_def bind_eq_Inr)
  apply (frule get_trajectory_value_estimates_feed_batch)
  apply (auto simp: AgentBuffer_getitem_Inr bind_eq_Inr py_last_def split: if_splits)
  done

text \<open>
  C3, as the code has it. The two mappings that \<^verbatim>\<open>get_trajectory_value_estimates\<close> returns
  have the same keys, in the same order: the keys of \<^verbatim>\<open>self.value_heads\<close>. They are the
  registered reward-signal names when the value heads have been built with one head per
  registered signal, which this module leaves to the subclasses.
\<close>

theorem get_trajectory_value_estimates_keys:
  assumes "get_trajectory_value_estimates imp self s batch next_obs done = Inr ((tve, bve), b', s'')"
  shows "map fst tve = map fst (value_heads self) \<and> map fst bve = map fst (value_heads self) \<and>
         (fst ` set (value_heads self) = fst ` set (reward_signals self) \<longrightarrow>
            fst ` set tve = fst ` set (reward_signals self) \<and>
            fst ` set bve = fst ` set (reward_signals self))"
proof -
  from get_trajectory_value_estimates_Inr [OF assms] obtain tve0 pm vm pa s1 where
    "map fst tve0 = map fst (value_heads self)"
    "dict_map_err np_squeeze_axis1 tve0 = Inr tve"
    "get_value_estimates imp self s1 next_obs done pm vm pa = Inr (bve, s'')"
    by (auto split: if_splits dest!: sess_run_dict_keys sess_run_dict2_keys)
  then have keys: "map fst tve = map fst (value_heads self)" "map fst bve = map fst (value_heads self)"
    by (auto dest: dict_map_err_keys get_value_estimates_keys)
  then have "fst ` set tve = fst ` set (value_heads self)" "fst ` set bve = fst ` set (value_heads self)"
    by (metis list.set_map)+
  with keys show ?thesis by simp
qed

theorem get_trajectory_value_estimates_keys_witness:
  "get_trajectory_value_estimates ex_imported ex_optimizer 0 ex_batch [ex_obs] True =
     Inr (([(''extrinsic'', \<lparr>shape = [1], data = [10]\<rparr>), (''curiosity'', \<lparr>shape = [1], data = [11]\<rparr>)],
           [(''extrinsic'', 0), (''curiosity'', 11)]), ex_batch, 0) \<and>
   fst ` set (value_heads ex_optimizer) = fst ` set (reward_signals ex_optimizer) \<and>
   fst ` set [(''extrinsic'', 0::real), (''curiosity'', 11)] = fst ` set (reward_signals ex_optimizer)"
proof -
  have run: "get_trajectory_value_estimates ex_imported ex_optimizer 0 ex_batch [ex_obs] True =
     Inr (([(''extrinsic'', \<lparr>shape = [1], data = [10]\<rparr>), (''curiosity'', \<lparr>shape = [1], data = [11]\<rparr>)],
           [(''extrinsic'', 0), (''curiosity'', 11)]), ex_batch, 0)"
    by (simp add: run_defs ex_defs)
  have heads: "fst ` set (value_heads ex_optimizer) = fst ` set (reward_signals ex_optimizer)"
    by (simp add: ex_optimizer_def ex_signals_def)
  from get_trajectory_value_estimates_keys [OF run] run heads show ?thesis by blast
qed

text \<open>
  C3, as the claim states it, fails on the optimizer that \<^verbatim>\<open>TFOptimizer.__init__\<close> leaves
  behind for one reward signal: \<^verbatim>\<open>value_heads\<close> is still empty, both returned mappings are
  empty, and the registered name is \<^verbatim>\<open>extrinsic\<close>.
\<close>

theorem get_trajectory_value_estimates_keys_counterexample:
  "TFOptimizer_init ex_imported (Some ex_policy)
     [(''reward_signals'', RewardSignalConfigs [(''extrinsic'', True)])] = Inr ex_optimizer_fresh \<and>
   get_trajectory_value_estimates ex_imported ex_optimizer_fresh 0 ex_batch [ex_obs] True =
     Inr (([], []), ex_batch, 0) \<and>
   map fst (reward_signals ex_optimizer_fresh) = [''extrinsic'']"
proof -
  have "TFPolicy.sess ex_policy = ex_session" by (simp add: ex_policy_def)
  then have "TFOptimizer_init ex_imported (Some ex_policy)
     [(''reward_signals'', RewardSignalConfigs [(''extrinsic'', True)])] = Inr ex_optimizer_fresh"
    by (simp add: TFOptimizer_init_def Optimizer_init_def create_reward_signals_def dict_get_def
          dict_update_def ex_optimizer_fresh_def ex_imported_def)
  moreover have "get_trajectory_value_estimates ex_imported ex_optimizer_fresh 0 ex_batch [ex_obs] True =
     Inr (([], []), ex_batch, 0)"
    by (simp add: run_defs ex_defs)
  moreover have "map fst (reward_signals ex_optimizer_fresh) = [''extrinsic'']"
    by (simp add: ex_optimizer_fresh_def)
  ultimately show ?thesis by simp
qed

text \<open>
  C4, as the code has it. What decides is \<^verbatim>\<open>use_recurrent\<close>. For a recurrent policy the method
  fetches the two memory outputs with the value heads and calls \<^verbatim>\<open>get_value_estimates\<close> on
  \<^verbatim>\<open>next_obs\<close> with them and with the last entry of the batch's \<^verbatim>\<open>actions\<close> field; for any
  other policy it calls it with \<^verbatim>\<open>None\<close> for the memories and for the previous action.
  Either way the bootstrap estimate returned is what that call returns for \<^verbatim>\<open>next_obs\<close>.
\<close>

theorem get_trajectory_value_estimates_delegates:
  assumes "get_trajectory_value_estimates imp self s batch next_obs done = Inr ((tve, bve), b', s'')"
  shows "if use_recurrent (policy self)
         then \<exists>feed tve0 policy_mem value_mem s1 actions.
                get_trajectory_value_estimates_feed self batch = Inr (feed, batch) \<and>
                sess_run_dict2 (TFOptimizer.sess self) s (value_heads self)
                  (TFPolicy.memory_out (policy self)) (TFOptimizer.memory_out self) feed
                  = Inr ((tve0, policy_mem, value_mem), s1) \<and>
                AgentBuffer_getitem batch ''actions'' = Inr (actions, batch) \<and> actions \<noteq> [] \<and>
                get_value_estimates imp self s1 next_obs done
                  (Some policy_mem) (Some value_mem) (Some (last actions)) = Inr (bve, s'')
         else \<exists>feed tve0 s1.
                get_trajectory_value_estimates_feed self batch = Inr (feed, batch) \<and>
                sess_run_dict (TFOptimizer.sess self) s (value_heads self) feed = Inr (tve0, s1) \<and>
                get_value_estimates imp self s1 next_obs done None None None = Inr (bve, s'')"
  using get_trajectory_value_estimates_Inr [OF assms]
  by (auto split: if_splits)

theorem get_trajectory_value_estimates_delegates_witness:
  "get_trajectory_value_estimates ex_imported ex_optimizer_rnn 0 ex_batch [ex_obs] False =
     Inr (([(''extrinsic'', \<lparr>shape = [1], data = [110]\<rparr>), (''curiosity'', \<lparr>shape = [1], data = [111]\<rparr>)],
           [(''extrinsic'', 110), (''curiosity'', 111)]), ex_batch, 0) \<and>
   use_recurrent (policy ex_optimizer_rnn) \<and>
   (\<exists>feed tve0 policy_mem value_mem s1 actions.
      get_trajectory_value_estimates_feed ex_optimizer_rnn ex_batch = Inr (feed, ex_batch) \<and>
      sess_run_dict2 (TFOptimizer.sess ex_optimizer_rnn) 0 (value_heads ex_optimizer_rnn)
        (TFPolicy.memory_out (policy ex_optimizer_rnn)) (TFOptimizer.memory_out ex_optimizer_rnn) feed
        = Inr ((tve0, policy_mem, value_mem), s1) \<and>
      AgentBuffer_getitem ex_batch ''actions'' = Inr (actions, ex_batch) \<and> actions \<noteq> [] \<and>
      get_value_estimates ex_imported ex_optimizer_rnn s1 [ex_obs] False
        (Some policy_mem) (Some value_mem) (Some (last actions))
        = Inr ([(''extrinsic'', 110), (''curiosity'', 111)], 0))"
proof -
  have run: "get_trajectory_value_estimates ex_imported ex_optimizer_rnn 0 ex_batch [ex_obs] False =
     Inr (([(''extrinsic'', \<lparr>shape = [1], data = [110]\<rparr>), (''curiosity'', \<lparr>shape = [1], data = [111]\<rparr>)],
           [(''extrinsic'', 110), (''curiosity'', 111)]), ex_batch, 0)"
    by (simp add: run_defs ex_defs)
  have rec: "use_recurrent (policy ex_optimizer_rnn)"
    by (simp add: ex_optimizer_rnn_def ex_policy_rnn_def)
  from get_trajectory_value_estimates_delegates [OF run]
  have "\<exists>feed tve0 policy_mem value_mem s1 actions.
      get_trajectory_value_estimates_feed ex_optimizer_rnn ex_batch = Inr (feed, ex_batch) \<and>
      sess_run_dict2 (TFOptimizer.sess ex_optimizer_rnn) 0 (value_heads ex_optimizer_rnn)
        (TFPolicy.memory_out (policy ex_optimizer_rnn)) (TFOptimizer.memory_out ex_optimizer_rnn) feed
        = Inr ((tve0, policy_mem, value_mem), s1) \<and>
      AgentBuffer_getitem ex_batch ''actions'' = Inr (actions, ex_batch) \<and> actions \<noteq> [] \<and>
      get_value_estimates ex_imported ex_optimizer_rnn s1 [ex_obs] False
        (Some policy_mem) (Some value_mem) (Some (last actions))
        = Inr ([(''extrinsic'', 110), (''curiosity'', 111)], 0)"
    by (simp only: rec if_True)
  with run rec show ?thesis by simp
qed

text \<open>
  C4, as the claim states it, fails for a policy that conditions on the previous action
  (node 7) without being recurrent: the batch has an \<^verbatim>\<open>actions\<close> field, and the bootstrap
  estimate returned is the one \<^verbatim>\<open>get_value_estimates\<close> gives without a previous action,
  not the one it gives with the last action of the batch.
\<close>

theorem get_trajectory_value_estimates_delegates_counterexample:
  "TFPolicy.prev_action (policy ex_optimizer_prev) = Some 7 \<and>
   AgentBuffer_getitem ex_batch ''actions'' = Inr ([ex_action], ex_batch) \<and>
   get_trajectory_value_estimates ex_imported ex_optimizer_prev 0 ex_batch [ex_obs] False =
     Inr (([(''extrinsic'', \<lparr>shape = [1], data = [110]\<rparr>), (''curiosity'', \<lparr>shape = [1], data = [111]\<rparr>)],
           [(''extrinsic'', 10), (''curiosity'', 11)]), ex_batch, 0) \<and>
   get_value_estimates ex_imported ex_optimizer_prev 0 [ex_obs] False None None None =
     Inr ([(''extrinsic'', 10), (''curiosity'', 11)], 0) \<and>
   get_value_estimates ex_imported ex_optimizer_prev 0 [ex_obs] False None None (Some ex_action) =
     Inr ([(''extrinsic'', 110), (''curiosity'', 111)], 0)"
proof -
  have "TFPolicy.prev_action (policy ex_optimizer_prev) = Some 7"
    by (simp add: ex_optimizer_prev_def ex_policy_prev_def)
  moreover have "AgentBuffer_getitem ex_batch ''actions'' = Inr ([ex_action], ex_batch)"
    by (simp add: AgentBuffer_getitem_def dict_get_def ex_batch_def)
  moreover have "get_trajectory_value_estimates ex_imported ex_optimizer_prev 0 ex_batch [ex_obs] False =
     Inr (([(''extrinsic'', \<lparr>shape = [1], data = [110]\<rparr>), (''curiosity'', \<lparr>shape = [1], data = [111]\<rparr>)],
           [(''extrinsic'', 10), (''curiosity'', 11)]), ex_batch, 0)"
    by (simp add: run_defs ex_defs)
  moreover have "get_value_estimates ex_imported ex_optimizer_prev 0 [ex_obs] False None None None =
     Inr ([(''extrinsic'', 10), (''curiosity'', 11)], 0)"
    by (simp add: run_defs ex_defs)
  moreover have "get_value_estimates ex_imported ex_optimizer_prev 0 [ex_obs] False None None (Some ex_action) =
     Inr ([(''extrinsic'', 110), (''curiosity'', 111)], 0)"
    by (simp add: run_defs ex_defs)
  ultimately show ?thesis by simp
qed

text \<open>
  C8. \<^verbatim>\<open>get_trajectory_value_estimates\<close> does not mutate the batch: when it returns, the
  batch is the batch it was given, every field of it and its count of experiences. The
  method reaches the batch through field accesses only, in the feed dictionary, in its
  loop over the visual observations and for the last action, and none of them writes.
\<close>

theorem get_trajectory_value_estimates_batch_unchanged:
  assumes "get_trajectory_value_estimates imp self s batch next_obs done = Inr (r, b', s'')"
  shows "b' = batch"
proof -
  obtain tve bve where r: "r = (tve, bve)" by (cases r)
  from get_trajectory_value_estimates_Inr [OF assms [unfolded r]] show ?thesis by simp
qed

theorem get_trajectory_value_estimates_batch_unchanged_witness:
  "get_trajectory_value_estimates ex_imported ex_optimizer_rnn 0 ex_batch [ex_obs] True =
     Inr (([(''extrinsic'', \<lparr>shape = [1], data = [110]\<rparr>), (''curiosity'', \<lparr>shape = [1], data = [111]\<rparr>)],
           [(''extrinsic'', 0), (''curiosity'', 111)]), ex_batch, 0) \<and>
   ex_batch = ex_batch"
proof -
  have run: "get_trajectory_value_estimates ex_imported ex_optimizer_rnn 0 ex_batch [ex_obs] True =
     Inr (([(''extrinsic'', \<lparr>shape = [1], data = [110]\<rparr>), (''curiosity'', \<lparr>shape = [1], data = [111]\<rparr>)],
           [(''extrinsic'', 0), (''curiosity'', 111)]), ex_batch, 0)"
    by (simp add: run_defs ex_defs)
  from get_trajectory_value_estimates_batch_unchanged [OF run] run show ?thesis by simp
qed

subsection \<open>The execution helper\<close>

text \<open>Assigning pairs with distinct keys into a dictionary appends them in order.\<close>

lemma update_absent: "k \<notin> fst ` set d \<Longrightarrow> AList.update k v d = d @ [(k, v)]"
  by (induction d) auto

lemma dict_update_distinct:
  "distinct (map fst (d @ ps)) \<Longrightarrow> dict_update d ps = d @ ps"
proof (induction ps arbitrary: d)
  case Nil
  then show ?case by (simp add: dict_update_def)
next
  case (Cons p ps)
  obtain k v where p: "p = (k, v)" by (cases p)
  from Cons.prems have k: "k \<notin> fst ` set d" by (auto simp: p)
  from Cons.prems have "distinct (map fst ((d @ [(k, v)]) @ ps))" by (simp add: p)
  from Cons.IH [OF this] have "dict_update (d @ [(k, v)]) ps = d @ (k, v) # ps" by simp
  then show ?case by (simp add: dict_update_def p update_absent [OF k])
qed

lemma dict_of_pairs_distinct: "distinct (map fst ps) \<Longrightarrow> dict_of_pairs ps = ps"
  using dict_update_distinct [of "[]" ps] by (simp add: dict_of_pairs_def)

lemma all2_zip_keys:
  "list_all2 P (map snd d) vs \<Longrightarrow>
     list_all2 (\<lambda>(k, t) (k', v). k' = k \<and> P t v) d (zip (map fst d) vs)"
proof (induction d arbitrary: vs)
  case Nil
  then show ?case by simp
next
  case (Cons p d)
  then show ?case by (cases vs) (auto split: prod.splits)
qed

text \<open>
  C9. \<^verbatim>\<open>_execute_model(feed_dict, out_dict)\<close> returns a mapping with the keys of
  \<^verbatim>\<open>out_dict\<close> in the same order, each key with the value that the one execution of the
  graph computed for the node \<^verbatim>\<open>out_dict\<close> holds under it. \<^verbatim>\<open>out_dict\<close> is a dictionary,
  so its keys are distinct.
\<close>

theorem execute_model_keys_and_values:
  assumes "distinct (map fst out_dict)"
    and "execute_model self s feed out_dict = Inr (run_out, s')"
  shows "map fst run_out = map fst out_dict \<and>
         list_all2 (\<lambda>(k, t) (k', v). k' = k \<and>
             tensor_value (TFOptimizer.sess self) s (map snd out_dict) feed t = Inr v)
           out_dict run_out \<and>
         s' = next_state (TFOptimizer.sess self) s (map snd out_dict) feed"
proof -
  from assms(2) obtain vs where
    run: "list_all2 (\<lambda>t v. tensor_value (TFOptimizer.sess self) s (map snd out_dict) feed t = Inr v)
            (map snd out_dict) vs"
    and st: "s' = next_state (TFOptimizer.sess self) s (map snd out_dict) feed"
    and out: "run_out = dict_of_pairs (zip (map fst out_dict) vs)"
    by (auto simp: execute_model_def bind_eq_Inr sess_run_Inr)
  have len: "length vs = length out_dict" using run by (auto dest: list_all2_lengthD)
  then have "map fst (zip (map fst out_dict) vs) = map fst out_dict" by simp
  with assms(1) have "dict_of_pairs (zip (map fst out_dict) vs) = zip (map fst out_dict) vs"
    by (simp add: dict_of_pairs_distinct)
  with out have eq: "run_out = zip (map fst out_dict) vs" by simp
  show ?thesis
    using all2_zip_keys [OF run] st len by (simp add: eq)
qed

theorem execute_model_keys_and_values_witness:
  "distinct (map fst [(''value'', Some (10::nat)), (''entropy'', Some 11)]) \<and>
   execute_model ex_optimizer 0 [] [(''value'', Some 10), (''entropy'', Some 11)] =
     Inr ([(''value'', \<lparr>shape = [1, 1], data = [10]\<rparr>),
           (''entropy'', \<lparr>shape = [1, 1], data = [11]\<rparr>)], 0) \<and>
   map fst [(''value'', \<lparr>shape = [1, 1], data = [10::real]\<rparr>),
            (''entropy'', \<lparr>shape = [1, 1], data = [11]\<rparr>)] =
     map fst [(''value'', Some (10::nat)), (''entropy'', Some 11)]"
proof -
  have d: "distinct (map fst [(''value'', Some (10::nat)), (''entropy'', Some 11)])" by simp
  have run: "execute_model ex_optimizer 0 [] [(''value'', Some 10), (''entropy'', Some 11)] =
     Inr ([(''value'', \<lparr>shape = [1, 1], data = [10]\<rparr>),
           (''entropy'', \<lparr>shape = [1, 1], data = [11]\<rparr>)], 0)"
    by (simp add: execute_model_def dict_of_pairs_def dict_update_def run_defs ex_defs)
  from execute_model_keys_and_values [OF d run] d run show ?thesis by simp
qed

subsection \<open>Reward signals and construction\<close>

lemma dict_update_Nil [simp]: "dict_update d [] = d"
  by (simp add: dict_update_def)

lemma dict_update_Cons [simp]:
  "dict_update d ((k, v) # e) = dict_update (AList.update k v d) e"
  by (simp add: dict_update_def)

lemma dict_update_keys: "fst ` set (dict_update d e) = fst ` set d \<union> fst ` set e"
proof (induction e arbitrary: d)
  case Nil
  then show ?case by simp
next
  case (Cons p e)
  obtain k v where p: "p = (k, v)" by (cases p)
  have "fst ` set (dict_update d (p # e)) = fst ` set (AList.update k v d) \<union> fst ` set e"
    by (simp add: p Cons.IH)
  also have "\<dots> = ({k} \<union> fst ` set d) \<union> fst ` set e"
    by (simp only: dom_update)
  also have "\<dots> = fst ` set d \<union> fst ` set (p # e)"
    by (simp add: p)
  finally show ?case .
qed

lemma dict_update_other:
  "k \<notin> fst ` set e \<Longrightarrow> map_of (dict_update d e) k = map_of d k"
  by (induction e arbitrary: d) (auto simp: update_conv')

text \<open>
  One turn of the loop of \<^verbatim>\<open>create_reward_signals\<close>, and the loop from any optimizer: the
  names of the configurations are added to the keys of \<^verbatim>\<open>reward_signals\<close>, \<^verbatim>\<open>update_dict\<close>
  loses no key, an entry keeps its value unless one of the created signals assigns its
  key, and nothing else of the optimizer changes.
\<close>

lemma create_step:
  "
       (\<lambda>(name, config) self.
          bind (create_reward_signal imp (policy self) name config) (\<lambda>signal.
          let self = self\<lparr>reward_signals := AList.update name signal (reward_signals self)\<rparr> in
          bind (dict_get (reward_signals self) name) (\<lambda>created.
          Inr (self\<lparr>TFOptimizer.update_dict :=
                 dict_update (TFOptimizer.update_dict self) (reward_signal.update_dict created)\<rparr>))))
       (name, config) self = Inr self1 \<longleftrightarrow>
     (\<exists>signal. create_reward_signal imp (policy self) name config = Inr signal \<and>
        self1 = self\<lparr>reward_signals := AList.update name signal (reward_signals self),
                      TFOptimizer.update_dict :=
                        dict_update (TFOptimizer.update_dict self) (reward_signal.update_dict signal)\<rparr>)"
  by (auto simp: bind_eq_Inr dict_get_eq_Inr update_conv' Let_def)

lemma create_loop:
  assumes "fold_err 
       (\<lambda>(name, config) self.
          bind (create_reward_signal imp (policy self) name config) (\<lambda>signal.
          let self = self\<lparr>reward_signals := AList.update name signal (reward_signals self)\<rparr> in
          bind (dict_get (reward_signals self) name) (\<lambda>created.
          Inr (self\<lparr>TFOptimizer.update_dict :=
                 dict_update (TFOptimizer.update_dict self) (reward_signal.update_dict created)\<rparr>))))
       cfgs self0 = Inr self'"
  shows "fst ` set (reward_signals self') = fst ` set (reward_signals self0) \<union> fst ` set cfgs \<and>
         fst ` set (TFOptimizer.update_dict self0) \<subseteq> fst ` set (TFOptimizer.update_dict self') \<and>
         policy self' = policy self0 \<and> TFOptimizer.sess self' = TFOptimizer.sess self0 \<and>
         value_heads self' = value_heads self0 \<and>
         ((\<forall>name config signal. (name, config) \<in> set cfgs \<longrightarrow>
              create_reward_signal imp (policy self0) name config = Inr signal \<longrightarrow>
              k \<notin> fst ` set (reward_signal.update_dict signal)) \<longrightarrow>
          map_of (TFOptimizer.update_dict self') k = map_of (TFOptimizer.update_dict self0) k)"
  using assms
proof (induction cfgs arbitrary: self0)
  case Nil
  then show ?case by simp
next
  case (Cons c cfgs)
  obtain name config where c: "c = (name, config)" by (cases c)
  from Cons.prems obtain self1 where
    step: "
       (\<lambda>(name, config) self.
          bind (create_reward_signal imp (policy self) name config) (\<lambda>signal.
          let self = self\<lparr>reward_signals := AList.update name signal (reward_signals self)\<rparr> in
          bind (dict_get (reward_signals self) name) (\<lambda>created.
          Inr (self\<lparr>TFOptimizer.update_dict :=
                 dict_update (TFOptimizer.update_dict self) (reward_signal.update_dict created)\<rparr>))))
       (name, config) self0 = Inr self1"
    and rest: "fold_err 
       (\<lambda>(name, config) self.
          bind (create_reward_signal imp (policy self) name config) (\<lambda>signal.
          let self = self\<lparr>reward_signals := AList.update name signal (reward_signals self)\<rparr> in
          bind (dict_get (reward_signals self) name) (\<lambda>created.
          Inr (self\<lparr>TFOptimizer.update_dict :=
                 dict_update (TFOptimizer.update_dict self) (reward_signal.update_dict created)\<rparr>))))
       cfgs self1 = Inr self'"
    by (auto simp: bind_eq_Inr c)
  from step obtain signal where
    sig: "create_reward_signal imp (policy self0) name config = Inr signal"
    and self1: "self1 = self0\<lparr>reward_signals := AList.update name signal (reward_signals self0),
                      TFOptimizer.update_dict :=
                        dict_update (TFOptimizer.update_dict self0) (reward_signal.update_dict signal)\<rparr>"
    unfolding create_step by blast
  note IH = Cons.IH [OF rest]
  have pol: "policy self1 = policy self0" by (simp add: self1)
  have rs1: "fst ` set (reward_signals self1) = {name} \<union> fst ` set (reward_signals self0)"
    by (simp add: self1 dom_update)
  have ud1: "fst ` set (TFOptimizer.update_dict self1) =
         fst ` set (TFOptimizer.update_dict self0) \<union> fst ` set (reward_signal.update_dict signal)"
    by (simp add: self1 dict_update_keys)
  show ?case
  proof (intro conjI impI)
    show "fst ` set (reward_signals self') = fst ` set (reward_signals self0) \<union> fst ` set (c # cfgs)"
      using IH rs1 by (auto simp: c)
    show "fst ` set (TFOptimizer.update_dict self0) \<subseteq> fst ` set (TFOptimizer.update_dict self')"
      using IH ud1 by auto
    show "policy self' = policy self0" using IH pol by simp
    show "TFOptimizer.sess self' = TFOptimizer.sess self0" using IH by (simp add: self1)
    show "value_heads self' = value_heads self0" using IH by (simp add: self1)
  next
    assume fresh: "\<forall>name config signal. (name, config) \<in> set (c # cfgs) \<longrightarrow>
              create_reward_signal imp (policy self0) name config = Inr signal \<longrightarrow>
              k \<notin> fst ` set (reward_signal.update_dict signal)"
    then have "k \<notin> fst ` set (reward_signal.update_dict signal)" using sig by (auto simp: c)
    then have one: "map_of (TFOptimizer.update_dict self1) k = map_of (TFOptimizer.update_dict self0) k"
      by (simp add: self1 dict_update_other)
    from fresh have "\<forall>name config signal. (name, config) \<in> set cfgs \<longrightarrow>
              create_reward_signal imp (policy self1) name config = Inr signal \<longrightarrow>
              k \<notin> fst ` set (reward_signal.update_dict signal)"
      by (simp add: pol)
    with IH have "map_of (TFOptimizer.update_dict self') k = map_of (TFOptimizer.update_dict self1) k"
      by blast
    with one show "map_of (TFOptimizer.update_dict self') k = map_of (TFOptimizer.update_dict self0) k"
      by simp
  qed
qed

text \<open>
  C10. After a call of \<^verbatim>\<open>create_reward_signals\<close> the keys of \<^verbatim>\<open>reward_signals\<close> are exactly
  the keys of the configuration passed, whatever was registered before. \<^verbatim>\<open>update_dict\<close>
  is only extended: every key it had is still there, with the value it had unless a signal
  created by this call assigns that key again.
\<close>

theorem create_reward_signals_replaces_and_extends:
  assumes "create_reward_signals imp self cfgs = Inr self'"
  shows "fst ` set (reward_signals self') = fst ` set cfgs \<and>
         fst ` set (TFOptimizer.update_dict self) \<subseteq> fst ` set (TFOptimizer.update_dict self') \<and>
         ((\<forall>name config signal. (name, config) \<in> set cfgs \<longrightarrow>
              create_reward_signal imp (policy self) name config = Inr signal \<longrightarrow>
              k \<notin> fst ` set (reward_signal.update_dict signal)) \<longrightarrow>
          map_of (TFOptimizer.update_dict self') k = map_of (TFOptimizer.update_dict self) k)"
  using create_loop [OF assms [unfolded create_reward_signals_def], of k] by simp

text \<open>
  An optimizer with the signal \<^verbatim>\<open>extrinsic\<close> is given the configuration of \<^verbatim>\<open>curiosity\<close>
  alone: \<^verbatim>\<open>extrinsic\<close> is no longer registered, and its update target is still there.
\<close>

theorem create_reward_signals_replaces_and_extends_witness:
  "create_reward_signals ex_imported ex_optimizer_fresh [(''curiosity'', False)] =
     Inr (ex_optimizer_fresh
           \<lparr>TFOptimizer.update_dict := [(''Losses/extrinsic'', 9), (''Losses/curiosity'', 9)],
            reward_signals :=
              [(''curiosity'', \<lparr>use_terminal_states = False, update_dict = [(''Losses/curiosity'', 9)]\<rparr>)]\<rparr>) \<and>
   map fst (reward_signals ex_optimizer_fresh) = [''extrinsic''] \<and>
   create_reward_signal ex_imported (policy ex_optimizer_fresh) ''curiosity'' False =
     Inr \<lparr>use_terminal_states = False, update_dict = [(''Losses/curiosity'', 9)]\<rparr> \<and>
   ''Losses/extrinsic'' \<notin> fst ` set [(''Losses/curiosity'', 9::nat)] \<and>
   map_of (TFOptimizer.update_dict (ex_optimizer_fresh
           \<lparr>TFOptimizer.update_dict := [(''Losses/extrinsic'', 9), (''Losses/curiosity'', 9)],
            reward_signals :=
              [(''curiosity'', \<lparr>use_terminal_states = False, update_dict = [(''Losses/curiosity'', 9)]\<rparr>)]\<rparr>))
     ''Losses/extrinsic'' = map_of (TFOptimizer.update_dict ex_optimizer_fresh) ''Losses/extrinsic''"
proof -
  have run: "create_reward_signals ex_imported ex_optimizer_fresh [(''curiosity'', False)] =
     Inr (ex_optimizer_fresh
           \<lparr>TFOptimizer.update_dict := [(''Losses/extrinsic'', 9), (''Losses/curiosity'', 9)],
            reward_signals :=
              [(''curiosity'', \<lparr>use_terminal_states = False, update_dict = [(''Losses/curiosity'', 9)]\<rparr>)]\<rparr>)"
    by (simp add: create_reward_signals_def dict_get_def ex_optimizer_fresh_def ex_imported_def)
  have before: "map fst (reward_signals ex_optimizer_fresh) = [''extrinsic'']"
    by (simp add: ex_optimizer_fresh_def)
  have fresh: "\<forall>name config signal. (name, config) \<in> set [(''curiosity'', False)] \<longrightarrow>
      create_reward_signal ex_imported (policy ex_optimizer_fresh) name config = Inr signal \<longrightarrow>
      ''Losses/extrinsic'' \<notin> fst ` set (reward_signal.update_dict signal)"
    by (auto simp: ex_imported_def)
  from create_reward_signals_replaces_and_extends [OF run, of "''Losses/extrinsic''"] fresh
  have "map_of (TFOptimizer.update_dict (ex_optimizer_fresh
           \<lparr>TFOptimizer.update_dict := [(''Losses/extrinsic'', 9), (''Losses/curiosity'', 9)],
            reward_signals :=
              [(''curiosity'', \<lparr>use_terminal_states = False, update_dict = [(''Losses/curiosity'', 9)]\<rparr>)]\<rparr>))
     ''Losses/extrinsic'' = map_of (TFOptimizer.update_dict ex_optimizer_fresh) ''Losses/extrinsic''"
    by blast
  moreover have "create_reward_signal ex_imported (policy ex_optimizer_fresh) ''curiosity'' False =
     Inr \<lparr>use_terminal_states = False, update_dict = [(''Losses/curiosity'', 9)]\<rparr>"
    by (simp add: ex_imported_def)
  moreover have "''Losses/extrinsic'' \<notin> fst ` set [(''Losses/curiosity'', 9::nat)]"
    by simp
  ultimately show ?thesis using run before by blast
qed

lemma create_reward_signals_frame:
  assumes "create_reward_signals imp self cfgs = Inr self'"
  shows "policy self' = policy self" and "TFOptimizer.sess self' = TFOptimizer.sess self"
    and "value_heads self' = value_heads self"
  using create_loop [OF assms [unfolded create_reward_signals_def]] by simp_all

text \<open>
  C7, as the code has it. \<^verbatim>\<open>TFOptimizer.__init__\<close> fails when it is given \<^verbatim>\<open>None\<close> for the
  policy (reading \<^verbatim>\<open>policy.sess\<close> raises AttributeError), and every optimizer it constructs
  holds exactly the policy it was given, and that policy's session.
\<close>

theorem TFOptimizer_init_binds_policy:
  "TFOptimizer_init imp None trainer_params = Inl AttributeError \<and>
   (TFOptimizer_init imp (Some p) trainer_params = Inr self \<longrightarrow>
      policy self = p \<and> TFOptimizer.sess self = TFPolicy.sess p)"
proof (intro conjI impI)
  show "TFOptimizer_init imp None trainer_params = Inl AttributeError"
    by (simp add: TFOptimizer_init_def Optimizer_init_def)
next
  assume "TFOptimizer_init imp (Some p) trainer_params = Inr self"
  then obtain configs created where
    c: "create_reward_signals imp
          \<lparr>sess = TFPolicy.sess p, policy = p, update_dict = [], value_heads = [],
           reward_signals = [], memory_in = None, memory_out = None, m_size = 0\<rparr>
          configs = Inr created"
    and self: "self = created\<lparr>TFOptimizer.memory_in := None, TFOptimizer.memory_out := None,
                               TFOptimizer.m_size := 0\<rparr>"
    by (auto simp: TFOptimizer_init_def Optimizer_init_def bind_eq_Inr Let_def)
  from create_reward_signals_frame(1,2) [OF c]
  show "policy self = p" and "TFOptimizer.sess self = TFPolicy.sess p"
    by (simp_all add: self)
qed

theorem TFOptimizer_init_binds_policy_witness:
  "TFOptimizer_init ex_imported None
     [(''reward_signals'', RewardSignalConfigs [(''extrinsic'', True)])] = Inl AttributeError \<and>
   TFOptimizer_init ex_imported (Some ex_policy)
     [(''reward_signals'', RewardSignalConfigs [(''extrinsic'', True)])] = Inr ex_optimizer_fresh \<and>
   policy ex_optimizer_fresh = ex_policy \<and>
   TFOptimizer.sess ex_optimizer_fresh = TFPolicy.sess ex_policy"
proof -
  have "TFPolicy.sess ex_policy = ex_session" by (simp add: ex_policy_def)
  then have run: "TFOptimizer_init ex_imported (Some ex_policy)
     [(''reward_signals'', RewardSignalConfigs [(''extrinsic'', True)])] = Inr ex_optimizer_fresh"
    by (simp add: TFOptimizer_init_def Optimizer_init_def create_reward_signals_def dict_get_def
          ex_optimizer_fresh_def ex_imported_def)
  from TFOptimizer_init_binds_policy
         [of ex_imported "[(''reward_signals'', RewardSignalConfigs [(''extrinsic'', True)])]"
             ex_policy ex_optimizer_fresh]
       run
  show ?thesis by simp
qed

text \<open>
  C7, as the claim states it, fails for the abstract base: \<^verbatim>\<open>Optimizer.__init__\<close> checks
  nothing, so it returns normally when it is given \<^verbatim>\<open>None\<close> for the policy.
\<close>

theorem Optimizer_init_counterexample:
  "Optimizer_init (None :: nat TFPolicy option) = Inr ()"
  by (simp add: Optimizer_init_def)

end
